theory Spec2Isabelle
  imports Complex_Main
begin

section \<open>JavaScript strings\<close>

text \<open>
  The calculator of \<^verbatim>\<open>src/App.tsx\<close> works on JavaScript strings. A JavaScript string is
  a sequence of UTF-16 code units; the keypad glyphs outside ASCII (the multiplication
  sign, the division sign, pi, the square root sign) are one code unit each, and none of
  the regular expressions of the source carries the \<^verbatim>\<open>u\<close> flag, so every string
  operation of the source works code unit by code unit. A string is therefore a list of
  code units, written as natural numbers; \<open>str\<close> embeds an ASCII literal.
\<close>

type_synonym jsstring = "nat list"

definition str :: "string \<Rightarrow> jsstring" where
  "str = map of_char"

abbreviation cu :: "char \<Rightarrow> nat" where
  "cu c \<equiv> of_char c"

text \<open>U+00D7, U+00F7, U+03C0 and U+221A.\<close>

abbreviation times_sign :: nat where "times_sign \<equiv> 215"
abbreviation division_sign :: nat where "division_sign \<equiv> 247"
abbreviation pi_sign :: nat where "pi_sign \<equiv> 960"
abbreviation sqrt_sign :: nat where "sqrt_sign \<equiv> 8730"

text \<open>\<^verbatim>\<open>s.startsWith(p)\<close> and \<^verbatim>\<open>s.endsWith(p)\<close>.\<close>

definition startsWith :: "jsstring \<Rightarrow> jsstring \<Rightarrow> bool" where
  "startsWith s p = (take (length p) s = p)"

definition endsWith :: "jsstring \<Rightarrow> jsstring \<Rightarrow> bool" where
  "endsWith s p = (length p \<le> length s \<and> drop (length s - length p) s = p)"

text \<open>
  \<^verbatim>\<open>s.slice(0, -k)\<close> for \<open>k > 0\<close>: the end index \<open>length s - k\<close> is clamped at 0, which
  is what the truncated subtraction of the naturals does. \<^verbatim>\<open>s.slice(1)\<close> is \<open>drop 1 s\<close>.
\<close>

definition sliceEnd :: "jsstring \<Rightarrow> nat \<Rightarrow> jsstring" where
  "sliceEnd s k = take (length s - k) s"

text \<open>
  \<^verbatim>\<open>s.replace(/pat/g, rep)\<close> for a pattern that is a literal, non-empty text: the
  matches are found from left to right and do not overlap, and the replacement text is
  not scanned again.
\<close>

function replaceAll :: "jsstring \<Rightarrow> jsstring \<Rightarrow> jsstring \<Rightarrow> jsstring" where
  "replaceAll pat rep [] = []"
| "replaceAll pat rep (c # cs) =
     (if pat \<noteq> [] \<and> take (length pat) (c # cs) = pat
      then rep @ replaceAll pat rep (drop (length pat - 1) cs)
      else c # replaceAll pat rep cs)"
  by pat_completeness auto
termination
  by (relation "measure (\<lambda>(pat, rep, s). length s)") auto

text \<open>\<^verbatim>\<open>(s.match(/c/g) || []).length\<close> for a single character \<open>c\<close>.\<close>

definition countMatches :: "nat \<Rightarrow> jsstring \<Rightarrow> nat" where
  "countMatches c s = length (filter (\<lambda>x. x = c) s)"

text \<open>Whether a literal text occurs somewhere in a string (an unanchored regex literal).\<close>

fun occursIn :: "jsstring \<Rightarrow> jsstring \<Rightarrow> bool" where
  "occursIn pat [] = (pat = [])"
| "occursIn pat (c # cs) = (take (length pat) (c # cs) = pat \<or> occursIn pat cs)"

section \<open>The error labels\<close>

text \<open>
  The list
  \<^verbatim>\<open>["Invalid format", "Invalid input", "Can't divide by zero", "Value too large", "Error"]\<close>
  that the source repeats at every call site, and its \<^verbatim>\<open>.includes(s)\<close> test.
\<close>

definition InvalidFormat :: jsstring where
  "InvalidFormat = str ''Invalid format''"

definition InvalidInput :: jsstring where
  "InvalidInput = str ''Invalid input''"

definition DivideByZero :: jsstring where
  "DivideByZero = str ''Can'' @ [39] @ str ''t divide by zero''"

definition ValueTooLarge :: jsstring where
  "ValueTooLarge = str ''Value too large''"

definition GenericError :: jsstring where
  "GenericError = str ''Error''"

definition errorLabels :: "jsstring list" where
  "errorLabels = [InvalidFormat, InvalidInput, DivideByZero, ValueTooLarge, GenericError]"

definition isErrorLabel :: "jsstring \<Rightarrow> bool" where
  "isErrorLabel s = (s \<in> set errorLabels)"

section \<open>The host: evaluation of program text and numbers\<close>

text \<open>
  \<^verbatim>\<open>calculate\<close> hands the rewritten expression to the JavaScript engine
  (\<^verbatim>\<open>new Function(..., `return ${cleanExpr}`)\<close>, then a call) and works on the number
  that comes back with \<^verbatim>\<open>Math.abs\<close>, \<^verbatim>\<open>toPrecision\<close>, \<^verbatim>\<open>Number\<close> and
  \<^verbatim>\<open>toString\<close>. The engine and its IEEE-754 double-precision numbers are not part of the
  repository. They are a parameter of the model: a record of the operations the source
  calls, over a type \<open>'n\<close> of finite numbers. Every theorem below holds for every host.
\<close>

datatype angleUnit = deg | rad

datatype 'n jsnumber = Finite 'n | NaN | PosInfinity | NegInfinity

text \<open>What a call returns: a number (\<^verbatim>\<open>typeof result === 'number'\<close>) or something else.\<close>

datatype 'n jsvalue = Num "'n jsnumber" | NotNumber

text \<open>How \<^verbatim>\<open>new Function(...)\<close> followed by the call \<^verbatim>\<open>fn(...)\<close> completes.\<close>

datatype 'n completion = Returned "'n jsvalue" | ThrewSyntaxError | ThrewOther

record 'n host =
  evalFunction :: "angleUnit \<Rightarrow> jsstring \<Rightarrow> 'n completion"
  absBelow1e12 :: "'n \<Rightarrow> bool"
  zero :: "'n"
  toPrecision :: "'n \<Rightarrow> nat \<Rightarrow> jsstring"
  toNumber :: "jsstring \<Rightarrow> 'n jsnumber"
  toString :: "'n jsnumber \<Rightarrow> jsstring"
  parseFloat :: "jsstring \<Rightarrow> 'n jsnumber"
  add :: "'n jsnumber \<Rightarrow> 'n jsnumber \<Rightarrow> 'n jsnumber"
  sub :: "'n jsnumber \<Rightarrow> 'n jsnumber \<Rightarrow> 'n jsnumber"

text \<open>\<^verbatim>\<open>isNaN\<close> and \<^verbatim>\<open>isFinite\<close> on a number.\<close>

fun isNaN :: "'n jsnumber \<Rightarrow> bool" where
  "isNaN NaN = True"
| "isNaN _ = False"

fun isFinite :: "'n jsnumber \<Rightarrow> bool" where
  "isFinite (Finite _) = True"
| "isFinite _ = False"

section \<open>\<^verbatim>\<open>calculate\<close>\<close>

text \<open>
  Lines 117 to 130: the chain of global replacements, in the order of the source.
\<close>

definition cleanExpr :: "jsstring \<Rightarrow> jsstring" where
  "cleanExpr expr =
     replaceAll [cu CHR ''^''] (str ''**'')
     (replaceAll [sqrt_sign, cu CHR ''(''] (str ''Math.sqrt('')
     (replaceAll (str ''ln('') (str ''Math.log('')
     (replaceAll (str ''log('') (str ''Math.log10('')
     (replaceAll (str ''tan('') (str ''trigTan('')
     (replaceAll (str ''cos('') (str ''trigCos('')
     (replaceAll (str ''sin('') (str ''trigSin('')
     (replaceAll [cu CHR ''e''] (str ''Math.E'')
     (replaceAll [pi_sign] (str ''Math.PI'')
     (replaceAll [cu CHR ''%''] (str ''/100'')
     (replaceAll [division_sign] (str ''/'')
     (replaceAll [times_sign] (str ''*'') expr)))))))))))"

text \<open>Lines 133 to 137: the missing closing parentheses are appended.\<close>

definition closeParens :: "jsstring \<Rightarrow> jsstring" where
  "closeParens c =
     (let openBrackets = countMatches (cu CHR ''('') c;
          closeBrackets = countMatches (cu CHR '')'') c
      in if openBrackets > closeBrackets
         then c @ replicate (openBrackets - closeBrackets) (cu CHR '')'')
         else c)"

text \<open>
  Line 140, first test, \<^verbatim>\<open>/\/0(?!\.)/\<close>: somewhere a slash, a zero, and then anything
  but a dot (the end of the text included).
\<close>

fun slashZeroNoDot :: "jsstring \<Rightarrow> bool" where
  "slashZeroNoDot (a # b # rest) =
     ((a = cu CHR ''/'' \<and> b = cu CHR ''0'' \<and>
       (case rest of [] \<Rightarrow> True | c # _ \<Rightarrow> c \<noteq> cu CHR ''.''))
      \<or> slashZeroNoDot (b # rest))"
| "slashZeroNoDot _ = False"

text \<open>
  Line 140, second test, \<^verbatim>\<open>/\/0\.0*($|[+\-*\/])/\<close>: somewhere a slash, a zero, a dot,
  any number of zeros, and then the end of the text or one of \<^verbatim>\<open>+ - * /\<close>. Matching
  fewer zeros than there are leaves a zero next, which is neither the end nor one of the
  four characters, so it is enough to skip all of them.
\<close>

definition isArithOp :: "nat \<Rightarrow> bool" where
  "isArithOp c = (c = cu CHR ''+'' \<or> c = cu CHR ''-'' \<or> c = cu CHR ''*'' \<or> c = cu CHR ''/'')"

fun slashZeroDotZeros :: "jsstring \<Rightarrow> bool" where
  "slashZeroDotZeros (a # b # c # rest) =
     ((a = cu CHR ''/'' \<and> b = cu CHR ''0'' \<and> c = cu CHR ''.'' \<and>
       (case dropWhile (\<lambda>x. x = cu CHR ''0'') rest of [] \<Rightarrow> True | d # _ \<Rightarrow> isArithOp d))
      \<or> slashZeroDotZeros (b # c # rest))"
| "slashZeroDotZeros _ = False"

definition divideByZeroCheck :: "jsstring \<Rightarrow> bool" where
  "divideByZeroCheck c = (slashZeroNoDot c \<or> slashZeroDotZeros c)"

text \<open>
  Line 162, \<^verbatim>\<open>Number(x.toPrecision(12)).toString()\<close>, and the strings it can produce.
\<close>

definition formatNumber :: "'n host \<Rightarrow> 'n \<Rightarrow> jsstring" where
  "formatNumber h x = toString h (toNumber h (toPrecision h x 12))"

definition isFormatted :: "'n host \<Rightarrow> jsstring \<Rightarrow> bool" where
  "isFormatted h r = (\<exists>x. r = formatNumber h x)"

text \<open>
  Lines 154 to 163: what the source does with the value the call returned.
\<close>

definition classify :: "'n host \<Rightarrow> 'n jsvalue \<Rightarrow> jsstring" where
  "classify h result =
     (case result of
        NotNumber \<Rightarrow> InvalidFormat
      | Num r \<Rightarrow>
          if isNaN r then InvalidInput
          else if \<not> isFinite r then
            (if r = PosInfinity \<or> r = NegInfinity then ValueTooLarge else GenericError)
          else (case r of
                  Finite v \<Rightarrow>
                    let roundedResult = (if absBelow1e12 h v then zero h else v)
                    in formatNumber h roundedResult
                | _ \<Rightarrow> GenericError))"

text \<open>
  Lines 113 to 168. The \<^verbatim>\<open>try\<close> block covers everything after the first line; the two
  ways the engine can throw are the two branches of the \<^verbatim>\<open>catch\<close>.
\<close>

definition calculate :: "'n host \<Rightarrow> angleUnit \<Rightarrow> jsstring \<Rightarrow> jsstring" where
  "calculate h unit expr =
     (if expr = [] then []
      else
        let c = closeParens (cleanExpr expr) in
        if divideByZeroCheck c then DivideByZero
        else (case evalFunction h unit c of
                Returned result \<Rightarrow> classify h result
              | ThrewSyntaxError \<Rightarrow> InvalidFormat
              | ThrewOther \<Rightarrow> GenericError))"

section \<open>The state and the preview\<close>

text \<open>The interface \<^verbatim>\<open>HistoryItem\<close> of \<^verbatim>\<open>src/types.ts\<close>.\<close>

record HistoryItem =
  item_expression :: jsstring
  item_result :: jsstring
  item_timestamp :: nat

text \<open>
  The state variables of the component \<^verbatim>\<open>App\<close> that the handlers read and write
  (lines 97 to 103). \<^verbatim>\<open>resultPreview\<close> is \<^verbatim>\<open>string | null\<close>.
\<close>

record 'n state =
  expression :: jsstring
  resultPreview :: "jsstring option"
  history :: "HistoryItem list"
  angleUnit :: angleUnit
  memory :: "'n jsnumber"

text \<open>
  Line 171, \<^verbatim>\<open>/[+\-\<times>\<div>%^]|sin|cos|tan|log|ln|\<surd>/.test(expr)\<close>: one of six characters, or
  one of five names, or the square root sign, somewhere in the text.
\<close>

definition isPreviewOperatorChar :: "nat \<Rightarrow> bool" where
  "isPreviewOperatorChar c =
     (c = cu CHR ''+'' \<or> c = cu CHR ''-'' \<or> c = times_sign \<or> c = division_sign
      \<or> c = cu CHR ''%'' \<or> c = cu CHR ''^'')"

definition hasOperators :: "jsstring \<Rightarrow> bool" where
  "hasOperators expr =
     (list_ex isPreviewOperatorChar expr
      \<or> occursIn (str ''sin'') expr \<or> occursIn (str ''cos'') expr
      \<or> occursIn (str ''tan'') expr \<or> occursIn (str ''log'') expr
      \<or> occursIn (str ''ln'') expr \<or> occursIn [sqrt_sign] expr)"

text \<open>
  Lines 170 to 179. The function returns the value it passes to
  \<^verbatim>\<open>setResultPreview\<close>.
\<close>

definition updatePreview :: "'n host \<Rightarrow> angleUnit \<Rightarrow> jsstring \<Rightarrow> jsstring option" where
  "updatePreview h unit expr =
     (if hasOperators expr then
        (let res = calculate h unit expr;
             isErrorMessage = isErrorLabel res
         in if \<not> isErrorMessage \<and> res \<noteq> [] then Some res else None)
      else None)"

section \<open>The handlers\<close>

text \<open>
  Each handler is a function from the state before the action to the state after it. An
  updater passed to \<^verbatim>\<open>setExpression\<close> that calls \<^verbatim>\<open>updatePreview\<close> writes both
  variables; a branch that returns early writes the expression only.
\<close>

text \<open>Lines 181 to 188.\<close>

definition handleInput :: "'n host \<Rightarrow> jsstring \<Rightarrow> 'n state \<Rightarrow> 'n state" where
  "handleInput h val s =
     (let prev = expression s;
          isError = isErrorLabel prev;
          next = (if isError then [] else prev) @ val
      in s\<lparr>expression := next, resultPreview := updatePreview h (angleUnit s) next\<rparr>)"

text \<open>
  Line 195: the operators that may start an expression,
  \<^verbatim>\<open>['-', 'sin(', 'cos(', 'tan(', 'log(', 'ln(', '\<surd>(', '\<pi>', 'e']\<close>.
\<close>

definition startOperators :: "jsstring list" where
  "startOperators =
     [str ''-'', str ''sin('', str ''cos('', str ''tan('', str ''log('', str ''ln('',
      [sqrt_sign, cu CHR ''(''], [pi_sign], str ''e'']"

text \<open>Line 196: the character class \<^verbatim>\<open>[+\-\<times>\<div>]\<close>, at the end of a text and anywhere in it.\<close>

definition isBinaryOperatorChar :: "nat \<Rightarrow> bool" where
  "isBinaryOperatorChar c =
     (c = cu CHR ''+'' \<or> c = cu CHR ''-'' \<or> c = times_sign \<or> c = division_sign)"

definition endsInBinaryOperator :: "jsstring \<Rightarrow> bool" where
  "endsInBinaryOperator s = (s \<noteq> [] \<and> isBinaryOperatorChar (last s))"

definition containsBinaryOperator :: "jsstring \<Rightarrow> bool" where
  "containsBinaryOperator s = list_ex isBinaryOperatorChar s"

text \<open>Lines 190 to 203.\<close>

definition handleOperator :: "'n host \<Rightarrow> jsstring \<Rightarrow> 'n state \<Rightarrow> 'n state" where
  "handleOperator h op s =
     (let prev = expression s;
          isError = isErrorLabel prev;
          base = (if isError then str ''0'' else prev)
      in if base = [] \<and> \<not> List.member startOperators op then s\<lparr>expression := base\<rparr>
         else if endsInBinaryOperator base \<and> containsBinaryOperator op
         then s\<lparr>expression := sliceEnd base 1 @ op\<rparr>
         else let next = base @ op
              in s\<lparr>expression := next, resultPreview := updatePreview h (angleUnit s) next\<rparr>)"

text \<open>Lines 205 to 208.\<close>

definition handleClear :: "'n state \<Rightarrow> 'n state" where
  "handleClear s = s\<lparr>expression := [], resultPreview := None\<rparr>"

text \<open>Lines 210 to 229.\<close>

definition handleBackspace :: "'n host \<Rightarrow> 'n state \<Rightarrow> 'n state" where
  "handleBackspace h s =
     (let prev = expression s;
          isError = isErrorLabel prev
      in if isError then s\<lparr>expression := [], resultPreview := None\<rparr>
         else
           let next =
             (if endsWith prev (str ''sin('') \<or> endsWith prev (str ''cos('')
                 \<or> endsWith prev (str ''tan('') \<or> endsWith prev (str ''log('')
              then sliceEnd prev 4
              else if endsWith prev (str ''ln('') \<or> endsWith prev [sqrt_sign, cu CHR ''('']
              then sliceEnd prev 3
              else sliceEnd prev 1)
           in s\<lparr>expression := next, resultPreview := updatePreview h (angleUnit s) next\<rparr>)"

text \<open>
  Lines 231 to 252. \<open>now\<close> is the value of \<^verbatim>\<open>Date.now()\<close>. A string is truthy when it
  is not empty.
\<close>

definition handleEquals :: "'n host \<Rightarrow> nat \<Rightarrow> 'n state \<Rightarrow> 'n state" where
  "handleEquals h now s =
     (if expression s = [] then s
      else if isErrorLabel (expression s) then s
      else
        let finalResult = calculate h (angleUnit s) (expression s);
            isErrorResult = isErrorLabel finalResult
        in if finalResult \<noteq> [] \<and> \<not> isErrorResult then
             (let newItem = \<lparr>item_expression = expression s, item_result = finalResult,
                             item_timestamp = now\<rparr>
              in s\<lparr>history := history s @ [newItem], expression := finalResult,
                   resultPreview := None\<rparr>)
           else if finalResult \<noteq> [] then s\<lparr>expression := finalResult, resultPreview := None\<rparr>
           else s)"

text \<open>Lines 255 to 275: the memory register.\<close>

definition handleMemoryClear :: "'n host \<Rightarrow> 'n state \<Rightarrow> 'n state" where
  "handleMemoryClear h s = s\<lparr>memory := Finite (zero h)\<rparr>"

definition handleMemoryRecall :: "'n host \<Rightarrow> 'n state \<Rightarrow> 'n state" where
  "handleMemoryRecall h s =
     (let prev = expression s;
          isError = isErrorLabel prev;
          next = (if isError then [] else prev) @ toString h (memory s)
      in s\<lparr>expression := next, resultPreview := updatePreview h (angleUnit s) next\<rparr>)"

definition handleMemoryAdd :: "'n host \<Rightarrow> 'n state \<Rightarrow> 'n state" where
  "handleMemoryAdd h s =
     (let currentVal =
            calculate h (angleUnit s) (if expression s = [] then str ''0'' else expression s)
      in if \<not> isErrorLabel currentVal \<and> currentVal \<noteq> []
         then s\<lparr>memory := add h (memory s) (parseFloat h currentVal)\<rparr>
         else s)"

definition handleMemorySubtract :: "'n host \<Rightarrow> 'n state \<Rightarrow> 'n state" where
  "handleMemorySubtract h s =
     (let currentVal =
            calculate h (angleUnit s) (if expression s = [] then str ''0'' else expression s)
      in if \<not> isErrorLabel currentVal \<and> currentVal \<noteq> []
         then s\<lparr>memory := sub h (memory s) (parseFloat h currentVal)\<rparr>
         else s)"

text \<open>Lines 451 to 459: the handler of the key \<^verbatim>\<open>+/-\<close>.\<close>

definition toggleSign :: "'n state \<Rightarrow> 'n state" where
  "toggleSign s =
     (let prev = expression s;
          isError = isErrorLabel prev;
          base = (if isError then [] else prev)
      in if startsWith base (str ''-'') then s\<lparr>expression := drop 1 base\<rparr>
         else if base = [] then s\<lparr>expression := str ''-''\<rparr>
         else s\<lparr>expression := str ''-'' @ base\<rparr>)"

text \<open>
  Lines 277 to 279: after every change of the expression or of the angle unit the effect
  computes the preview again, so the preview on display is the one of the current text.
\<close>

definition previewEffect :: "'n host \<Rightarrow> 'n state \<Rightarrow> 'n state" where
  "previewEffect h s = s\<lparr>resultPreview := updatePreview h (angleUnit s) (expression s)\<rparr>"

section \<open>A host to run the model on\<close>

text \<open>
  To run the model on concrete inputs a host has to be chosen. \<open>literalHost\<close> is the
  smallest one that lets an evaluation succeed: its numbers are the integers, its engine
  accepts a program that is one unsigned decimal literal and answers every other program
  with a \<^verbatim>\<open>SyntaxError\<close>, and it prints an integer in decimal notation. It stands for
  no part of the source; the theorems are about every host.
\<close>

function decimalDigits :: "nat \<Rightarrow> jsstring" where
  "decimalDigits n =
     (if n < 10 then [48 + n] else decimalDigits (n div 10) @ [48 + n mod 10])"
  by pat_completeness auto
termination
  by (relation "measure id") auto

declare decimalDigits.simps [simp del]

definition showInt :: "int \<Rightarrow> jsstring" where
  "showInt i =
     (if i < 0 then cu CHR ''-'' # decimalDigits (nat (- i)) else decimalDigits (nat i))"

definition isDigit :: "nat \<Rightarrow> bool" where
  "isDigit c = (48 \<le> c \<and> c \<le> 57)"

definition readDigits :: "jsstring \<Rightarrow> nat" where
  "readDigits s = foldl (\<lambda>a c. 10 * a + (c - 48)) 0 s"

definition readInt :: "jsstring \<Rightarrow> int jsnumber" where
  "readInt s =
     (if s \<noteq> [] \<and> list_all isDigit s then Finite (int (readDigits s))
      else if s \<noteq> [] \<and> hd s = cu CHR ''-'' \<and> tl s \<noteq> [] \<and> list_all isDigit (tl s)
      then Finite (- int (readDigits (tl s)))
      else NaN)"

fun showNumber :: "int jsnumber \<Rightarrow> jsstring" where
  "showNumber (Finite v) = showInt v"
| "showNumber NaN = str ''NaN''"
| "showNumber PosInfinity = str ''Infinity''"
| "showNumber NegInfinity = str ''-Infinity''"

fun liftInt :: "(int \<Rightarrow> int \<Rightarrow> int) \<Rightarrow> int jsnumber \<Rightarrow> int jsnumber \<Rightarrow> int jsnumber" where
  "liftInt f (Finite a) (Finite b) = Finite (f a b)"
| "liftInt f _ _ = NaN"

definition literalHost :: "int host" where
  "literalHost =
     \<lparr>evalFunction = (\<lambda>unit prog.
         if prog \<noteq> [] \<and> list_all isDigit prog
         then Returned (Num (Finite (int (readDigits prog))))
         else ThrewSyntaxError),
      absBelow1e12 = (\<lambda>v. v = 0),
      zero = 0,
      toPrecision = (\<lambda>v p. showInt v),
      toNumber = readInt,
      toString = showNumber,
      parseFloat = readInt,
      add = liftInt (+),
      sub = liftInt (-)\<rparr>"

text \<open>A state to start from: the values the component is created with, for \<open>literalHost\<close>.\<close>

definition initialState :: "int state" where
  "initialState =
     \<lparr>expression = [], resultPreview = None, history = [], angleUnit = deg,
      memory = Finite 0\<rparr>"

section \<open>Double-precision addition and subtraction\<close>

text \<open>
  The memory register is a JavaScript number, and \<^verbatim>\<open>M+\<close> and \<^verbatim>\<open>M-\<close> compute
  \<^verbatim>\<open>prev + v\<close> and \<^verbatim>\<open>prev - v\<close> on IEEE-754 double-precision numbers. A finite double
  is the rational number it denotes (the two zeros are not told apart), and the result
  of an operation is the exact result rounded to the nearest double, ties to the even
  significand: 53 significant bits, the finest step \<open>2 ^ - 1074\<close>, and an infinity from
  \<open>2 ^ 1024\<close> on.
\<close>

function bitLength :: "int \<Rightarrow> nat" where
  "bitLength n = (if n \<le> 0 then 0 else Suc (bitLength (n div 2)))"
  by pat_completeness auto
termination
  by (relation "measure nat") auto

declare bitLength.simps [simp del]

definition pow2 :: "int \<Rightarrow> rat" where
  "pow2 e = (if 0 \<le> e then 2 ^ nat e else 1 / 2 ^ nat (- e))"

definition binaryExponent :: "rat \<Rightarrow> int" where
  "binaryExponent x =
     (let (p, q) = quotient_of x;
          d = int (bitLength p) - int (bitLength q)
      in if pow2 d \<le> x then d else d - 1)"

definition roundHalfEven :: "rat \<Rightarrow> int" where
  "roundHalfEven y =
     (let f = \<lfloor>y\<rfloor>; r = y - of_int f
      in if r < 1 / 2 then f else if 1 / 2 < r then f + 1
         else if even f then f else f + 1)"

definition roundDouble :: "rat \<Rightarrow> rat jsnumber" where
  "roundDouble x =
     (if x = 0 then Finite 0
      else
        let a = \<bar>x\<bar>;
            e = max (binaryExponent a - 52) (- 1074);
            y = of_int (roundHalfEven (a / pow2 e)) * pow2 e
        in if 1024 \<le> binaryExponent y then (if 0 < x then PosInfinity else NegInfinity)
           else Finite (if 0 < x then y else - y))"

fun dNeg :: "rat jsnumber \<Rightarrow> rat jsnumber" where
  "dNeg (Finite a) = Finite (- a)"
| "dNeg NaN = NaN"
| "dNeg PosInfinity = NegInfinity"
| "dNeg NegInfinity = PosInfinity"

fun dAdd :: "rat jsnumber \<Rightarrow> rat jsnumber \<Rightarrow> rat jsnumber" where
  "dAdd (Finite a) (Finite b) = roundDouble (a + b)"
| "dAdd NaN _ = NaN"
| "dAdd _ NaN = NaN"
| "dAdd PosInfinity NegInfinity = NaN"
| "dAdd NegInfinity PosInfinity = NaN"
| "dAdd PosInfinity _ = PosInfinity"
| "dAdd _ PosInfinity = PosInfinity"
| "dAdd NegInfinity _ = NegInfinity"
| "dAdd _ NegInfinity = NegInfinity"

definition dSub :: "rat jsnumber \<Rightarrow> rat jsnumber \<Rightarrow> rat jsnumber" where
  "dSub a b = dAdd a (dNeg b)"

section \<open>A host with double-precision numbers\<close>

text \<open>
  \<open>doubleHost\<close> is a second host to run the model on, with the double-precision
  addition and subtraction above. Its engine accepts a program that is one unsigned
  decimal literal and reads it as the nearest double; every other program is answered
  with a \<^verbatim>\<open>SyntaxError\<close>. It prints a number with a given count of significant digits
  (\<^verbatim>\<open>toPrecision\<close>) and with the fewest digits that read back as the same double
  (\<^verbatim>\<open>toString\<close>), always in positional notation; JavaScript changes to the exponent
  notation for very small and very large numbers. Like \<open>literalHost\<close> it stands for no
  part of the source.
\<close>

definition pow10 :: "int \<Rightarrow> rat" where
  "pow10 e = (if 0 \<le> e then 10 ^ nat e else 1 / 10 ^ nat (- e))"

function digitsOf :: "int \<Rightarrow> jsstring" where
  "digitsOf n =
     (if n < 10 then [48 + nat n] else digitsOf (n div 10) @ [48 + nat (n mod 10)])"
  by pat_completeness auto
termination
  by (relation "measure nat") auto

declare digitsOf.simps [simp del]

function placesBelowOne :: "int \<Rightarrow> rat \<Rightarrow> int" where
  "placesBelowOne k x =
     (if 400 \<le> k \<or> 1 \<le> x * pow10 k then k else placesBelowOne (k + 1) x)"
  by pat_completeness auto
termination
  by (relation "measure (\<lambda>(k, x). nat (400 - k))") auto

declare placesBelowOne.simps [simp del]

definition decimalExponent :: "rat \<Rightarrow> int" where
  "decimalExponent x =
     (if 1 \<le> x then int (length (digitsOf \<lfloor>x\<rfloor>)) - 1 else - placesBelowOne 1 x)"

definition significand :: "nat \<Rightarrow> rat \<Rightarrow> int \<times> int" where
  "significand p x =
     (let e = decimalExponent x;
          k = e - int p + 1;
          n = \<lfloor>x / pow10 k + 1 / 2\<rfloor>
      in if n = 10 ^ p then (10 ^ (p - 1), k + 1) else (n, k))"

definition positional :: "int \<times> int \<Rightarrow> jsstring" where
  "positional d =
     (let ds = digitsOf (fst d); k = snd d
      in if 0 \<le> k then ds @ replicate (nat k) (cu CHR ''0'')
         else
           let f = nat (- k);
               padded = replicate (Suc f - length ds) (cu CHR ''0'') @ ds
           in take (length padded - f) padded @ [cu CHR ''.''] @ drop (length padded - f) padded)"

definition signed :: "rat \<Rightarrow> jsstring \<Rightarrow> jsstring" where
  "signed x s = (if x < 0 then cu CHR ''-'' # s else s)"

definition toPrecisionDouble :: "rat \<Rightarrow> nat \<Rightarrow> jsstring" where
  "toPrecisionDouble x p =
     (if x = 0 then (if p \<le> 1 then str ''0'' else str ''0.'' @ replicate (p - 1) (cu CHR ''0''))
      else signed x (positional (significand p \<bar>x\<bar>)))"

function shortestDigits :: "nat \<Rightarrow> rat \<Rightarrow> int \<times> int" where
  "shortestDigits p x =
     (let d = significand p x
      in if 17 \<le> p \<or> roundDouble (of_int (fst d) * pow10 (snd d)) = Finite x then d
         else shortestDigits (Suc p) x)"
  by pat_completeness auto
termination
  by (relation "measure (\<lambda>(p, x). 17 - p)") auto

declare shortestDigits.simps [simp del]

fun toStringDouble :: "rat jsnumber \<Rightarrow> jsstring" where
  "toStringDouble (Finite x) =
     (if x = 0 then str ''0'' else signed x (positional (shortestDigits 1 \<bar>x\<bar>)))"
| "toStringDouble NaN = str ''NaN''"
| "toStringDouble PosInfinity = str ''Infinity''"
| "toStringDouble NegInfinity = str ''-Infinity''"

definition digitValue :: "jsstring \<Rightarrow> int" where
  "digitValue s = foldl (\<lambda>a c. 10 * a + int (c - 48)) 0 s"

definition readDecimal :: "jsstring \<Rightarrow> rat jsnumber" where
  "readDecimal s =
     (let negative = (s \<noteq> [] \<and> hd s = cu CHR ''-'');
          body = (if negative then tl s else s);
          whole = takeWhile isDigit body;
          rest = dropWhile isDigit body;
          sign = (if negative then - 1 else 1)
      in if whole = [] then NaN
         else if rest = [] then roundDouble (sign * of_int (digitValue whole))
         else if hd rest = cu CHR ''.'' \<and> list_all isDigit (tl rest)
         then roundDouble (sign * of_int (digitValue (whole @ tl rest)) / 10 ^ length (tl rest))
         else NaN)"

definition isDecimalLiteral :: "jsstring \<Rightarrow> bool" where
  "isDecimalLiteral s =
     (let whole = takeWhile isDigit s; rest = dropWhile isDigit s
      in whole \<noteq> [] \<and> (whole = str ''0'' \<or> hd whole \<noteq> cu CHR ''0'')
         \<and> (rest = [] \<or> (hd rest = cu CHR ''.'' \<and> list_all isDigit (tl rest))))"

definition doubleHost :: "rat host" where
  "doubleHost =
     \<lparr>evalFunction = (\<lambda>unit prog.
         if isDecimalLiteral prog then Returned (Num (readDecimal prog))
         else ThrewSyntaxError),
      absBelow1e12 = (\<lambda>v. case roundDouble (1 / 10 ^ 12) of
                              Finite t \<Rightarrow> \<bar>v\<bar> < t | _ \<Rightarrow> False),
      zero = 0,
      toPrecision = toPrecisionDouble,
      toNumber = readDecimal,
      toString = toStringDouble,
      parseFloat = readDecimal,
      add = dAdd,
      sub = dSub\<rparr>"

definition doubleState :: "rat state" where
  "doubleState =
     \<lparr>expression = [], resultPreview = None, history = [], angleUnit = deg,
      memory = Finite 0\<rparr>"

section \<open>Facts about the labels and the string operations\<close>

lemmas label_defs = InvalidFormat_def InvalidInput_def DivideByZero_def ValueTooLarge_def
  GenericError_def errorLabels_def isErrorLabel_def str_def

lemma label_nonempty: "isErrorLabel l \<Longrightarrow> l \<noteq> []"
  by (auto simp: label_defs)

lemma label_last: "isErrorLabel l \<Longrightarrow> \<not> isBinaryOperatorChar (last l)"
  by (auto simp: label_defs isBinaryOperatorChar_def)

lemma label_hd: "isErrorLabel l \<Longrightarrow> hd l \<noteq> cu CHR ''-''"
  by (auto simp: label_defs)

lemma zero_not_label: "\<not> isErrorLabel (str ''0'')"
  by (simp add: label_defs)

lemma minus_cons_not_label: "\<not> isErrorLabel (cu CHR ''-'' # t)"
  using label_hd [of "cu CHR ''-'' # t"] by auto

lemma ends_not_label: "endsInBinaryOperator e \<Longrightarrow> \<not> isErrorLabel e"
  using label_last [of e] by (auto simp: endsInBinaryOperator_def)

lemma hasOperators_Nil: "\<not> hasOperators []"
  by (simp add: hasOperators_def str_def)

lemma updatePreview_Nil: "updatePreview h unit [] = None"
  by (simp add: updatePreview_def hasOperators_Nil)

section \<open>The structural test for a division by zero\<close>

text \<open>
  What the expressions named in the specification become after the rewriting, and what
  the test of line 140 says of them.
\<close>

lemma structural_check_examples:
  "calculate h unit [cu CHR ''1'', division_sign, cu CHR ''0''] = DivideByZero"
  "calculate h unit ([cu CHR ''5'', division_sign] @ str ''0.0'') = DivideByZero"
  "\<not> divideByZeroCheck (closeParens (cleanExpr ([cu CHR ''1'', division_sign] @ str ''0.5'')))"
  "closeParens (cleanExpr ([cu CHR ''1'', division_sign] @ str ''(1-1)'')) = str ''1/(1-1)''"
  "\<not> divideByZeroCheck (str ''1/(1-1)'')"
  by (simp_all add: calculate_def cleanExpr_def closeParens_def countMatches_def
      divideByZeroCheck_def str_def isArithOp_def)

text \<open>
  A denominator that is computed to be zero passes the test; when the engine returns
  \<^verbatim>\<open>Infinity\<close> for it, the result is the label of an overflow.
\<close>

lemma computed_zero_is_overflow:
  assumes "evalFunction h unit (str ''1/(1-1)'') = Returned (Num PosInfinity)"
  shows "calculate h unit ([cu CHR ''1'', division_sign] @ str ''(1-1)'') = ValueTooLarge"
proof -
  have c: "closeParens (cleanExpr ([cu CHR ''1'', division_sign] @ str ''(1-1)''))
           = str ''1/(1-1)''"
    by (rule structural_check_examples(4))
  have n: "\<not> divideByZeroCheck (str ''1/(1-1)'')"
    by (rule structural_check_examples(5))
  show ?thesis
    unfolding calculate_def Let_def c using n assms by (simp add: classify_def)
qed

text \<open>
  A literal zero denominator that a closing parenthesis follows passes the test as well:
  the second pattern asks for the end of the text or an operator after the zeros.
\<close>

lemma zero_denominator_in_parentheses:
  "closeParens (cleanExpr (str ''(5'' @ [division_sign] @ str ''0.0'')) = str ''(5/0.0)''"
  "\<not> divideByZeroCheck (str ''(5/0.0)'')"
  by (simp_all add: cleanExpr_def closeParens_def countMatches_def
      divideByZeroCheck_def str_def isArithOp_def)

text \<open>
  Claim C1. The structural test is meant to find a denominator that is literally zero,
  and a denominator that goes on with further digits, as in \<^verbatim>\<open>/05\<close>, is not one. The
  look-ahead of the first pattern excludes a dot only: for the expression
  \<^verbatim>\<open>1\<div>05\<close>, whose denominator is five, \<^verbatim>\<open>calculate\<close> returns the label of a division
  by zero, whatever the engine would compute.
\<close>

theorem structural_check_leading_zero:
  "cleanExpr [cu CHR ''1'', division_sign, cu CHR ''0'', cu CHR ''5''] = str ''1/05''
   \<and> divideByZeroCheck (str ''1/05'')
   \<and> calculate h unit [cu CHR ''1'', division_sign, cu CHR ''0'', cu CHR ''5''] = DivideByZero"
  by (simp add: calculate_def cleanExpr_def closeParens_def countMatches_def
      divideByZeroCheck_def str_def)

section \<open>Actions in the error state\<close>

lemma input_on_error:
  "isErrorLabel (expression s) \<Longrightarrow> handleInput h val s = handleInput h val (s\<lparr>expression := []\<rparr>)"
  using label_nonempty [of "[]"] by (auto simp: handleInput_def)

lemma backspace_on_error:
  "isErrorLabel (expression s) \<Longrightarrow> handleBackspace h s = handleBackspace h (s\<lparr>expression := []\<rparr>)"
  using label_nonempty [of "[]"]
  by (auto simp: handleBackspace_def endsWith_def sliceEnd_def str_def updatePreview_Nil)

lemma toggle_on_error:
  "isErrorLabel (expression s) \<Longrightarrow> toggleSign s = toggleSign (s\<lparr>expression := []\<rparr>)"
  using label_nonempty [of "[]"] by (auto simp: toggleSign_def)

lemma recall_on_error:
  "isErrorLabel (expression s) \<Longrightarrow>
   handleMemoryRecall h s = handleMemoryRecall h (s\<lparr>expression := []\<rparr>)"
  using label_nonempty [of "[]"] by (auto simp: handleMemoryRecall_def)

lemma zero_text: "str ''0'' \<noteq> []" "\<not> endsInBinaryOperator (str ''0'')"
  by (simp_all add: str_def endsInBinaryOperator_def isBinaryOperatorChar_def)

lemma operator_on_error:
  assumes "isErrorLabel (expression s)"
  shows "handleOperator h op s = handleOperator h op (s\<lparr>expression := str ''0''\<rparr>)"
    and "expression (handleOperator h op s) = str ''0'' @ op"
  using assms zero_not_label zero_text by (simp_all add: handleOperator_def Let_def)

lemma equals_on_error: "isErrorLabel (expression s) \<Longrightarrow> handleEquals h now s = s"
  by (simp add: handleEquals_def)

text \<open>
  Claim C2, as the code has it. In the error state the input of a digit or constant,
  backspace, the sign toggle and the recall of the memory act exactly as they do on the
  empty expression. The input of an operator does not: it acts as on the expression
  \<^verbatim>\<open>0\<close>, so that the operator is appended to \<^verbatim>\<open>0\<close> and never rejected. Equals leaves the
  label in place.
\<close>

theorem error_state_actions:
  assumes "isErrorLabel (expression s)"
  shows "handleInput h val s = handleInput h val (s\<lparr>expression := []\<rparr>)
       \<and> handleBackspace h s = handleBackspace h (s\<lparr>expression := []\<rparr>)
       \<and> toggleSign s = toggleSign (s\<lparr>expression := []\<rparr>)
       \<and> handleMemoryRecall h s = handleMemoryRecall h (s\<lparr>expression := []\<rparr>)
       \<and> handleOperator h op s = handleOperator h op (s\<lparr>expression := str ''0''\<rparr>)
       \<and> expression (handleOperator h op s) = str ''0'' @ op
       \<and> handleEquals h now s = s"
  by (intro conjI input_on_error backspace_on_error toggle_on_error recall_on_error
      operator_on_error equals_on_error assms)

theorem error_state_actions_witness:
  "isErrorLabel (expression (initialState\<lparr>expression := GenericError\<rparr>))
   \<and> expression (handleInput literalHost (str ''7'') (initialState\<lparr>expression := GenericError\<rparr>))
       = str ''7''
   \<and> expression (handleBackspace literalHost (initialState\<lparr>expression := GenericError\<rparr>)) = []
   \<and> expression (toggleSign (initialState\<lparr>expression := GenericError\<rparr>)) = str ''-''
   \<and> expression (handleOperator literalHost [times_sign] (initialState\<lparr>expression := GenericError\<rparr>))
       = [cu CHR ''0'', times_sign]
   \<and> handleEquals literalHost 0 (initialState\<lparr>expression := GenericError\<rparr>)
       = initialState\<lparr>expression := GenericError\<rparr>"
proof -
  let ?s = "initialState\<lparr>expression := GenericError\<rparr>"
  have l: "isErrorLabel (expression ?s)"
    by (simp add: isErrorLabel_def errorLabels_def)
  have e: "\<not> isErrorLabel []"
    using label_nonempty by blast
  have i: "expression (handleInput literalHost (str ''7'') (?s\<lparr>expression := []\<rparr>)) = str ''7''"
    using e by (simp add: handleInput_def Let_def)
  have b: "expression (handleBackspace literalHost (?s\<lparr>expression := []\<rparr>)) = []"
    using e by (simp add: handleBackspace_def Let_def sliceEnd_def)
  have t: "expression (toggleSign (?s\<lparr>expression := []\<rparr>)) = str ''-''"
    using e by (simp add: toggleSign_def Let_def startsWith_def str_def)
  note th = error_state_actions [OF l, of literalHost "str ''7''" "[times_sign]" 0]
  from th have 1: "handleInput literalHost (str ''7'') ?s
                   = handleInput literalHost (str ''7'') (?s\<lparr>expression := []\<rparr>)"
    by blast
  from th have 2: "handleBackspace literalHost ?s = handleBackspace literalHost (?s\<lparr>expression := []\<rparr>)"
    by blast
  from th have 3: "toggleSign ?s = toggleSign (?s\<lparr>expression := []\<rparr>)"
    by blast
  from th have 4: "expression (handleOperator literalHost [times_sign] ?s) = str ''0'' @ [times_sign]"
    by blast
  from th have 5: "handleEquals literalHost 0 ?s = ?s"
    by blast
  have 6: "str ''0'' @ [times_sign] = [cu CHR ''0'', times_sign]"
    by (simp add: str_def)
  show ?thesis
    unfolding 1 2 3 4 5 6 using l i b t by simp
qed

text \<open>
  The claim as the specification states it fails: the multiplication sign is not among
  the operators that may start an expression, and pressing it in the error state leaves
  the text \<^verbatim>\<open>0\<times>\<close>, not the empty expression.
\<close>

theorem error_state_operator_counterexample:
  "isErrorLabel (expression (initialState\<lparr>expression := GenericError\<rparr>))
   \<and> \<not> List.member startOperators [times_sign]
   \<and> expression (handleOperator literalHost [times_sign] (initialState\<lparr>expression := GenericError\<rparr>))
       \<noteq> []"
proof -
  have 1: "isErrorLabel GenericError"
    by (simp add: isErrorLabel_def errorLabels_def)
  have 2: "\<not> List.member startOperators [times_sign]"
    by (simp add: startOperators_def str_def)
  have 3: "\<not> endsInBinaryOperator (str ''0'')" "\<not> isErrorLabel (str ''0'')"
    by (simp_all add: zero_text zero_not_label)
  show ?thesis
    using 1 2 3 by (simp add: handleOperator_def Let_def str_def)
qed

section \<open>Equals\<close>

lemma calculate_literal_42: "calculate literalHost deg (str ''42'') = str ''42''"
  by (simp add: calculate_def literalHost_def str_def cleanExpr_def closeParens_def
      countMatches_def divideByZeroCheck_def isDigit_def readDigits_def classify_def
      formatNumber_def showInt_def readInt_def decimalDigits.simps)

lemma text_42: "str ''42'' \<noteq> []" "\<not> isErrorLabel (str ''42'')"
  by (simp_all add: label_defs)

lemma label_DivideByZero: "isErrorLabel DivideByZero"
  by (simp add: isErrorLabel_def errorLabels_def)

lemma text_one_div_zero:
  "[cu CHR ''1'', division_sign, cu CHR ''0''] \<noteq> []"
  "\<not> isErrorLabel [cu CHR ''1'', division_sign, cu CHR ''0'']"
  by (simp_all add: label_defs)

text \<open>
  Claim C3. Equals does nothing when the expression is empty or an error label. On any
  other expression, with \<open>r\<close> the result of \<^verbatim>\<open>calculate\<close>: when \<open>r\<close> is a result (not
  empty, not an error label), exactly one history entry is appended, recording the
  expression and \<open>r\<close>, and the expression becomes \<open>r\<close>; when \<open>r\<close> is an error label, the
  history is unchanged and the expression becomes that label.
\<close>

theorem equals_commit:
  "(expression s = [] \<or> isErrorLabel (expression s) \<longrightarrow> handleEquals h now s = s)
   \<and> (expression s \<noteq> [] \<and> \<not> isErrorLabel (expression s) \<longrightarrow>
        (let r = calculate h (angleUnit s) (expression s) in
           (r \<noteq> [] \<and> \<not> isErrorLabel r \<longrightarrow>
              handleEquals h now s =
                s\<lparr>history := history s @
                     [\<lparr>item_expression = expression s, item_result = r, item_timestamp = now\<rparr>],
                  expression := r, resultPreview := None\<rparr>)
         \<and> (isErrorLabel r \<longrightarrow>
              handleEquals h now s = s\<lparr>expression := r, resultPreview := None\<rparr>
              \<and> history (handleEquals h now s) = history s)))"
  using label_nonempty [of "calculate h (angleUnit s) (expression s)"]
  by (simp add: handleEquals_def Let_def)

theorem equals_commit_witness:
  "handleEquals literalHost 7 (initialState\<lparr>expression := str ''42''\<rparr>) =
     initialState\<lparr>history := [\<lparr>item_expression = str ''42'', item_result = str ''42'',
                               item_timestamp = 7\<rparr>],
                  expression := str ''42'', resultPreview := None\<rparr>
   \<and> handleEquals literalHost 7
        (initialState\<lparr>expression := [cu CHR ''1'', division_sign, cu CHR ''0'']\<rparr>) =
     initialState\<lparr>expression := DivideByZero, resultPreview := None\<rparr>
   \<and> handleEquals literalHost 7 initialState = initialState"
proof -
  have u: "angleUnit initialState = deg" "history initialState = []" "expression initialState = []"
    by (simp_all add: initialState_def)
  have 1: "handleEquals literalHost 7 (initialState\<lparr>expression := str ''42''\<rparr>) =
     initialState\<lparr>history := [\<lparr>item_expression = str ''42'', item_result = str ''42'',
                               item_timestamp = 7\<rparr>],
                  expression := str ''42'', resultPreview := None\<rparr>"
    using equals_commit [of "initialState\<lparr>expression := str ''42''\<rparr>" literalHost 7]
    by (simp add: Let_def u calculate_literal_42 text_42)
  have 2: "handleEquals literalHost 7
        (initialState\<lparr>expression := [cu CHR ''1'', division_sign, cu CHR ''0'']\<rparr>) =
     initialState\<lparr>expression := DivideByZero, resultPreview := None\<rparr>"
    using equals_commit [of "initialState\<lparr>expression := [cu CHR ''1'', division_sign, cu CHR ''0'']\<rparr>"
        literalHost 7]
    by (simp add: Let_def u structural_check_examples(1) [simplified]
        text_one_div_zero(2) [simplified] label_DivideByZero)
  have 3: "handleEquals literalHost 7 initialState = initialState"
    using equals_commit [of initialState literalHost 7] by (simp add: u)
  from 1 2 3 show ?thesis by (intro conjI)
qed

text \<open>
  On a host whose formatting never yields the empty text, as a number's
  \<^verbatim>\<open>toString\<close> never does, the result of a non-empty expression is never empty, so
  the two cases above are all there is.
\<close>

lemma calculate_cases:
  "expr \<noteq> [] \<Longrightarrow> isErrorLabel (calculate h unit expr) \<or> isFormatted h (calculate h unit expr)"
  unfolding calculate_def Let_def classify_def isFormatted_def
  by (auto simp: isErrorLabel_def errorLabels_def
      split: completion.splits jsvalue.splits jsnumber.splits)

lemma calculate_nonempty:
  assumes "expr \<noteq> []" and "\<And>x. toString h x \<noteq> []"
  shows "calculate h unit expr \<noteq> []"
  using calculate_cases [OF assms(1), of h unit] assms(2) label_nonempty
  by (auto simp: isFormatted_def formatNumber_def)

section \<open>The results of \<^verbatim>\<open>calculate\<close>\<close>

text \<open>
  The text that \<^verbatim>\<open>calculate\<close> receives is never empty: \<^verbatim>\<open>updatePreview\<close> calls it
  only where the test of line 171 has found an operator, \<^verbatim>\<open>handleEquals\<close> returns
  before the call on the empty expression (line 232), and the memory handlers pass
  \<^verbatim>\<open>expression || '0'\<close>. Both ways the engine can throw end in a label.
\<close>

lemma calculate_call_sites:
  "hasOperators expr \<Longrightarrow> expr \<noteq> []"
  "(if e = [] then str ''0'' else e) \<noteq> []"
  using hasOperators_Nil by (auto simp: str_def)

lemma calculate_on_throw:
  assumes "expr \<noteq> []"
    and "evalFunction h unit (closeParens (cleanExpr expr)) = ThrewSyntaxError
         \<or> evalFunction h unit (closeParens (cleanExpr expr)) = ThrewOther"
  shows "isErrorLabel (calculate h unit expr)"
  using assms by (auto simp: calculate_def Let_def isErrorLabel_def errorLabels_def)

text \<open>
  Claim C4. \<^verbatim>\<open>calculate\<close> is a total function of the expression, and the two ways the
  engine can throw are branches of it: no fault reaches the caller. For every
  expression it is called with, that is for every text that is not empty, its result is
  one of the five labels or a formatted number.
\<close>

theorem calculate_total:
  "expr \<noteq> [] \<Longrightarrow>
   isErrorLabel (calculate h unit expr) \<or> isFormatted h (calculate h unit expr)"
  by (rule calculate_cases)

theorem calculate_total_witness:
  "str ''42'' \<noteq> []
   \<and> (isErrorLabel (calculate literalHost deg (str ''42''))
        \<or> isFormatted literalHost (calculate literalHost deg (str ''42'')))"
  using calculate_total [of "str ''42''" literalHost deg] text_42(1) by simp

section \<open>Backspace\<close>

text \<open>What backspace does where the removed token has the length the source counts.\<close>

lemma backspace_examples:
  "expression (handleBackspace h (s\<lparr>expression := str ''sin(''\<rparr>)) = []"
  "expression (handleBackspace h (s\<lparr>expression := str ''2+log(''\<rparr>)) = str ''2+''"
  "expression (handleBackspace h (s\<lparr>expression := str ''2+ln(''\<rparr>)) = str ''2+''"
  "expression (handleBackspace h (s\<lparr>expression := str ''2+3''\<rparr>)) = str ''2+''"
  by (simp_all add: handleBackspace_def Let_def label_defs endsWith_def sliceEnd_def)

text \<open>
  The same for every text: a trailing \<^verbatim>\<open>sin(\<close>, \<^verbatim>\<open>cos(\<close>, \<^verbatim>\<open>tan(\<close>, \<^verbatim>\<open>log(\<close> or
  \<^verbatim>\<open>ln(\<close> is removed and nothing else; where no prefix ends the text, one character is
  removed; a trailing square root prefix is removed together with the character before
  it.
\<close>

lemma endsWith_rev: "endsWith s p = (take (length p) (rev s) = rev p)"
proof -
  have "(length p \<le> length s \<and> drop (length s - length p) s = p)
        = (take (length p) (rev s) = rev p)"
  proof (cases "length p \<le> length s")
    case True
    then show ?thesis by (simp add: take_rev)
  next
    case False
    then have "length (take (length p) (rev s)) \<noteq> length (rev p)" by simp
    then have "take (length p) (rev s) \<noteq> rev p" by metis
    with False show ?thesis by simp
  qed
  then show ?thesis by (simp add: endsWith_def)
qed

lemma label_last_paren: "isErrorLabel l \<Longrightarrow> last l \<noteq> cu CHR ''(''"
  by (auto simp: label_defs)

lemma paren_not_label: "\<not> isErrorLabel (x @ [c, cu CHR ''(''])"
  using label_last_paren [of "x @ [c, cu CHR ''('']"] by auto

lemma backspace_four:
  assumes "tok = str ''sin('' \<or> tok = str ''cos('' \<or> tok = str ''tan('' \<or> tok = str ''log(''"
  shows "expression (handleBackspace h (s\<lparr>expression := x @ tok\<rparr>)) = x"
proof -
  have n: "\<not> isErrorLabel (x @ tok)"
    using assms paren_not_label [of "x @ take 2 tok" "tok ! 2"] by (auto simp: str_def)
  have e: "endsWith (x @ tok) tok" and l: "length tok = 4"
    using assms by (auto simp: endsWith_def str_def)
  from e assms have "endsWith (x @ tok) (str ''sin('') \<or> endsWith (x @ tok) (str ''cos('')
      \<or> endsWith (x @ tok) (str ''tan('') \<or> endsWith (x @ tok) (str ''log('')"
    by auto
  then show ?thesis
    using n l by (simp add: handleBackspace_def Let_def sliceEnd_def)
qed

lemma backspace_ln:
  "expression (handleBackspace h (s\<lparr>expression := x @ str ''ln(''\<rparr>)) = x"
proof -
  have n: "\<not> isErrorLabel (x @ str ''ln('')"
    using paren_not_label [of "x @ str ''l''" "cu CHR ''n''"] by (simp add: str_def)
  have 4: "\<not> endsWith (x @ str ''ln('') (str ''sin('')" "\<not> endsWith (x @ str ''ln('') (str ''cos('')"
    "\<not> endsWith (x @ str ''ln('') (str ''tan('')" "\<not> endsWith (x @ str ''ln('') (str ''log('')"
    by (simp_all add: endsWith_rev str_def take_Cons')
  have 3: "endsWith (x @ str ''ln('') (str ''ln('')"
    by (simp add: endsWith_def str_def)
  show ?thesis
    using n 4 3 by (simp add: handleBackspace_def Let_def sliceEnd_def) (simp add: str_def)
qed

lemma backspace_sqrt:
  "expression (handleBackspace h (s\<lparr>expression := x @ [sqrt_sign, cu CHR ''('']\<rparr>)) = butlast x"
proof -
  let ?e = "x @ [sqrt_sign, cu CHR ''('']"
  have n: "\<not> isErrorLabel ?e"
    by (rule paren_not_label)
  have 4: "\<not> endsWith ?e (str ''sin('')" "\<not> endsWith ?e (str ''cos('')"
    "\<not> endsWith ?e (str ''tan('')" "\<not> endsWith ?e (str ''log('')"
    "\<not> endsWith ?e (str ''ln('')"
    by (simp_all add: endsWith_rev str_def take_Cons')
  have 3: "endsWith ?e [sqrt_sign, cu CHR ''('']"
    by (simp add: endsWith_def)
  show ?thesis
    using n 4 3 by (simp add: handleBackspace_def Let_def sliceEnd_def butlast_conv_take)
qed

lemma backspace_one:
  assumes "\<not> isErrorLabel e"
    and "\<not> endsWith e (str ''sin('')" "\<not> endsWith e (str ''cos('')"
    and "\<not> endsWith e (str ''tan('')" "\<not> endsWith e (str ''log('')"
    and "\<not> endsWith e (str ''ln('')" "\<not> endsWith e [sqrt_sign, cu CHR ''('']"
  shows "expression (handleBackspace h (s\<lparr>expression := e\<rparr>)) = butlast e"
  using assms by (simp add: handleBackspace_def Let_def sliceEnd_def butlast_conv_take)

text \<open>
  Claim C5. Backspace is to remove the last token and nothing more. The square root
  prefix is two characters, the sign and the parenthesis, and the source removes three
  for it, as it does for \<^verbatim>\<open>ln(\<close>: on \<^verbatim>\<open>5+\<surd>(\<close> backspace leaves \<^verbatim>\<open>5\<close>, so the
  operator before the token is removed with it.
\<close>

theorem backspace_sqrt_prefix:
  "length [sqrt_sign, cu CHR ''(''] = 2
   \<and> expression (handleBackspace h (s\<lparr>expression := str ''5+'' @ [sqrt_sign, cu CHR ''('']\<rparr>))
       = str ''5''"
  by (simp add: handleBackspace_def Let_def label_defs endsWith_def sliceEnd_def)

section \<open>Operators\<close>

text \<open>
  The test of line 196 on the operator keys: the four arithmetic operators pass it, the
  percent sign and the power sign do not.
\<close>

lemma binary_keys:
  "containsBinaryOperator (str ''+'')" "containsBinaryOperator (str ''-'')"
  "containsBinaryOperator [times_sign]" "containsBinaryOperator [division_sign]"
  "\<not> containsBinaryOperator (str ''%'')" "\<not> containsBinaryOperator (str ''^'')"
  by (simp_all add: containsBinaryOperator_def isBinaryOperatorChar_def str_def)

lemma operator_replaces:
  assumes "endsInBinaryOperator (expression s)" and "containsBinaryOperator op"
  shows "handleOperator h op s = s\<lparr>expression := butlast (expression s) @ op\<rparr>"
  using assms ends_not_label [OF assms(1)]
  by (simp add: handleOperator_def Let_def sliceEnd_def butlast_conv_take
      endsInBinaryOperator_def)

lemma operator_appends:
  assumes "expression s \<noteq> []" and "\<not> isErrorLabel (expression s)"
    and "\<not> endsInBinaryOperator (expression s)"
  shows "expression (handleOperator h op s) = expression s @ op"
  using assms by (simp add: handleOperator_def Let_def)

lemma ends_plus: "endsInBinaryOperator (xs @ str ''+'')"
  by (simp add: endsInBinaryOperator_def isBinaryOperatorChar_def str_def)

lemma plus_then_minus:
  assumes "expression s \<noteq> []"
  shows "expression (handleOperator h (str ''-'') (handleOperator h (str ''+'') s)) =
     (if isErrorLabel (expression s) then str ''0''
      else if endsInBinaryOperator (expression s) then butlast (expression s)
      else expression s) @ str ''-''"
proof -
  let ?e = "expression s"
  let ?b = "if isErrorLabel ?e then str ''0''
      else if endsInBinaryOperator ?e then butlast ?e else ?e"
  have 1: "expression (handleOperator h (str ''+'') s) = ?b @ str ''+''"
  proof (cases "isErrorLabel ?e")
    case True
    then show ?thesis using operator_on_error(2) [of s h] by simp
  next
    case False
    show ?thesis
    proof (cases "endsInBinaryOperator ?e")
      case True
      then show ?thesis using False operator_replaces [OF True binary_keys(1)] by simp
    next
      case e: False
      then show ?thesis using False assms operator_appends [of s h] by simp
    qed
  qed
  have "endsInBinaryOperator (expression (handleOperator h (str ''+'') s))"
    unfolding 1 by (rule ends_plus)
  from operator_replaces [OF this binary_keys(2), of h] have
    "expression (handleOperator h (str ''-'') (handleOperator h (str ''+'') s))
     = butlast (?b @ str ''+'') @ str ''-''"
    unfolding 1 by simp
  also have "butlast (?b @ str ''+'') = ?b"
    by (simp add: str_def)
  finally show ?thesis .
qed

lemma operator_appends_other:
  assumes "expression s \<noteq> []" and "\<not> isErrorLabel (expression s)"
    and "\<not> (endsInBinaryOperator (expression s) \<and> containsBinaryOperator op)"
  shows "expression (handleOperator h op s) = expression s @ op"
  using assms by (auto simp: handleOperator_def Let_def)

text \<open>
  Claim C6, as the code has it. The operators that replace one another are those of the
  class \<^verbatim>\<open>[+\-\<times>\<div>]\<close> that line 196 tests. When the text ends in one of them and the
  operator pressed contains one, the operator pressed takes the place of the last
  character. In every other case on a non-empty expression the operator pressed is
  appended: so are the power sign and the percent sign after a trailing operator, and
  so is any operator after a trailing power or percent sign. Pressing \<^verbatim>\<open>+\<close> and then
  \<^verbatim>\<open>-\<close> on a non-empty expression gives the text the expression had before the two
  keys (without its own trailing operator, and \<^verbatim>\<open>0\<close> for an error label) followed by
  \<^verbatim>\<open>-\<close> alone: the \<^verbatim>\<open>+\<close> is gone.
\<close>

theorem last_operator_wins:
  "(endsInBinaryOperator (expression s) \<and> containsBinaryOperator op \<longrightarrow>
      expression (handleOperator h op s) = butlast (expression s) @ op)
   \<and> (expression s \<noteq> [] \<and> \<not> isErrorLabel (expression s)
        \<and> \<not> (endsInBinaryOperator (expression s) \<and> containsBinaryOperator op) \<longrightarrow>
      expression (handleOperator h op s) = expression s @ op)
   \<and> (expression s \<noteq> [] \<longrightarrow>
      expression (handleOperator h (str ''-'') (handleOperator h (str ''+'') s)) =
        (if isErrorLabel (expression s) then str ''0''
         else if endsInBinaryOperator (expression s) then butlast (expression s)
         else expression s) @ str ''-'')"
  using operator_replaces [of s op h] operator_appends_other [of s op h]
    plus_then_minus [of s h] by simp

theorem last_operator_wins_witness:
  "endsInBinaryOperator (str ''5+'') \<and> containsBinaryOperator [division_sign]
   \<and> expression (handleOperator literalHost [division_sign] (initialState\<lparr>expression := str ''5+''\<rparr>))
       = [cu CHR ''5'', division_sign]
   \<and> \<not> containsBinaryOperator (str ''^'')
   \<and> expression (handleOperator literalHost (str ''^'') (initialState\<lparr>expression := str ''5+''\<rparr>))
       = str ''5+^''
   \<and> expression (handleOperator literalHost (str ''-'')
        (handleOperator literalHost (str ''+'') (initialState\<lparr>expression := str ''5''\<rparr>)))
       = str ''5-''"
proof -
  have a: "endsInBinaryOperator (str ''5+'')" "\<not> endsInBinaryOperator (str ''5'')"
    by (simp_all add: endsInBinaryOperator_def isBinaryOperatorChar_def str_def)
  have b: "\<not> isErrorLabel (str ''5'')" "str ''5'' \<noteq> []"
    "\<not> isErrorLabel (str ''5+'')" "str ''5+'' \<noteq> []"
    by (simp_all add: label_defs)
  have 1: "expression (handleOperator literalHost [division_sign] (initialState\<lparr>expression := str ''5+''\<rparr>))
       = [cu CHR ''5'', division_sign]"
    using last_operator_wins [of "initialState\<lparr>expression := str ''5+''\<rparr>" "[division_sign]" literalHost]
      a(1) binary_keys(4) by (simp add: str_def)
  have 2: "expression (handleOperator literalHost (str ''^'') (initialState\<lparr>expression := str ''5+''\<rparr>))
       = str ''5+^''"
    using last_operator_wins [of "initialState\<lparr>expression := str ''5+''\<rparr>" "str ''^''" literalHost]
      b(3,4) binary_keys(6) by (simp add: str_def)
  have 3: "expression (handleOperator literalHost (str ''-'')
        (handleOperator literalHost (str ''+'') (initialState\<lparr>expression := str ''5''\<rparr>)))
       = str ''5-''"
    using last_operator_wins [of "initialState\<lparr>expression := str ''5''\<rparr>" "[division_sign]" literalHost]
      a(2) b(1,2) by (simp add: str_def)
  from a(1) binary_keys(4) 1 binary_keys(6) 2 3 show ?thesis by (intro conjI)
qed

text \<open>
  The claim as the specification states it, for every binary operator, fails for the
  power sign, which the specification counts among the binary operators: pressed after
  \<^verbatim>\<open>5+\<close> it is appended, and the text is \<^verbatim>\<open>5+^\<close>, not \<^verbatim>\<open>5^\<close>.
\<close>

theorem last_operator_wins_counterexample:
  "endsInBinaryOperator (str ''5+'')
   \<and> expression (handleOperator literalHost (str ''^'') (initialState\<lparr>expression := str ''5+''\<rparr>))
       = str ''5+^''
   \<and> expression (handleOperator literalHost (str ''^'') (initialState\<lparr>expression := str ''5+''\<rparr>))
       \<noteq> butlast (str ''5+'') @ str ''^''"
proof -
  have a: "endsInBinaryOperator (str ''5+'')"
    by (simp add: endsInBinaryOperator_def isBinaryOperatorChar_def str_def)
  have b: "\<not> isErrorLabel (str ''5+'')" "str ''5+'' \<noteq> []"
    by (simp_all add: label_defs)
  have c: "expression (handleOperator literalHost (str ''^'') (initialState\<lparr>expression := str ''5+''\<rparr>))
       = str ''5+'' @ str ''^''"
    using b binary_keys(6) by (simp add: handleOperator_def Let_def)
  show ?thesis
    unfolding c using a by (simp add: str_def)
qed

section \<open>The preview\<close>

text \<open>
  Claim C8. For a text in which the test of line 171 finds no operator and no function
  name, the preview is absent; and whenever \<^verbatim>\<open>calculate\<close> gives an error label for the
  text, the preview is absent.
\<close>

theorem preview_absent:
  "(\<not> hasOperators expr \<longrightarrow> updatePreview h unit expr = None)
   \<and> (isErrorLabel (calculate h unit expr) \<longrightarrow> updatePreview h unit expr = None)"
  by (simp add: updatePreview_def Let_def)

theorem preview_absent_witness:
  "\<not> hasOperators (str ''12.5'') \<and> updatePreview literalHost deg (str ''12.5'') = None
   \<and> isErrorLabel (calculate literalHost deg [cu CHR ''1'', division_sign, cu CHR ''0''])
   \<and> updatePreview literalHost deg [cu CHR ''1'', division_sign, cu CHR ''0''] = None"
proof -
  have 1: "\<not> hasOperators (str ''12.5'')"
    by (simp add: hasOperators_def isPreviewOperatorChar_def str_def)
  have 2: "isErrorLabel (calculate literalHost deg [cu CHR ''1'', division_sign, cu CHR ''0''])"
    unfolding structural_check_examples(1) by (rule label_DivideByZero)
  from preview_absent [of "str ''12.5''" literalHost deg] 1
  have 3: "updatePreview literalHost deg (str ''12.5'') = None"
    by blast
  from preview_absent [of "[cu CHR ''1'', division_sign, cu CHR ''0'']" literalHost deg] 2
  have 4: "updatePreview literalHost deg [cu CHR ''1'', division_sign, cu CHR ''0''] = None"
    by blast
  from 1 3 2 4 show ?thesis by (intro conjI)
qed

section \<open>The sign toggle\<close>

text \<open>
  Claim C10, as the code has it. For a text that is not an error label, does not begin with
  two minus signs, and is not a minus sign followed by an error label, toggling the sign
  twice gives the state back.
\<close>

theorem toggle_sign_twice:
  assumes "\<not> isErrorLabel (expression s)"
    and "\<not> startsWith (expression s) (str ''--'')"
    and "\<not> (startsWith (expression s) (str ''-'') \<and> isErrorLabel (drop 1 (expression s)))"
  shows "toggleSign (toggleSign s) = s"
proof (cases "expression s")
  case Nil
  then show ?thesis
    using assms(1) minus_cons_not_label [of "[]"]
    by (simp add: toggleSign_def Let_def startsWith_def str_def)
next
  case (Cons c cs)
  show ?thesis
  proof (cases "c = cu CHR ''-''")
    case True
    with Cons assms have 1: "\<not> isErrorLabel cs" and 2: "cs = [] \<or> hd cs \<noteq> cu CHR ''-''"
      by (auto simp: startsWith_def str_def) (cases cs; simp)
    have "toggleSign s = s\<lparr>expression := cs\<rparr>"
      using Cons True assms(1) by (simp add: toggleSign_def Let_def startsWith_def str_def)
    moreover have "toggleSign (s\<lparr>expression := cs\<rparr>) = s"
      using 1 2 Cons True
      by (cases cs) (auto simp add: toggleSign_def Let_def startsWith_def str_def)
    ultimately show ?thesis by simp
  next
    case False
    have "toggleSign s = s\<lparr>expression := cu CHR ''-'' # c # cs\<rparr>"
      using Cons False assms(1) by (simp add: toggleSign_def Let_def startsWith_def str_def)
    moreover have "toggleSign (s\<lparr>expression := cu CHR ''-'' # c # cs\<rparr>) = s"
      using minus_cons_not_label [of "c # cs"] Cons
      by (simp add: toggleSign_def Let_def startsWith_def str_def)
    ultimately show ?thesis by simp
  qed
qed

theorem toggle_sign_twice_witness:
  "\<not> isErrorLabel (str ''-5'') \<and> \<not> startsWith (str ''-5'') (str ''--'')
   \<and> \<not> isErrorLabel (str ''5'')
   \<and> toggleSign (toggleSign (initialState\<lparr>expression := str ''-5''\<rparr>))
       = initialState\<lparr>expression := str ''-5''\<rparr>"
proof -
  have 1: "\<not> isErrorLabel (str ''-5'')" and 2: "\<not> startsWith (str ''-5'') (str ''--'')"
    and 3: "\<not> isErrorLabel (str ''5'')" and 4: "drop 1 (str ''-5'') = str ''5''"
    by (simp_all add: label_defs startsWith_def)
  from toggle_sign_twice [of "initialState\<lparr>expression := str ''-5''\<rparr>"] 1 2 3 4
  have "toggleSign (toggleSign (initialState\<lparr>expression := str ''-5''\<rparr>))
       = initialState\<lparr>expression := str ''-5''\<rparr>"
    by simp
  with 1 2 3 show ?thesis by (intro conjI)
qed

text \<open>
  The claim as stated, for every text that is not an error label, fails for a text that
  begins with two minus signs, such as the one the recall of a negative memory value
  leaves after a minus sign: the first toggle strips one sign, the second strips the other.
\<close>

theorem toggle_sign_twice_counterexample:
  "\<not> isErrorLabel (str ''--5'')
   \<and> expression (toggleSign (toggleSign (initialState\<lparr>expression := str ''--5''\<rparr>))) = str ''5''
   \<and> expression (toggleSign (toggleSign (initialState\<lparr>expression := str ''--5''\<rparr>))) \<noteq> str ''--5''"
proof -
  have 1: "\<not> isErrorLabel (str ''--5'')" "\<not> isErrorLabel (str ''-5'')"
    by (simp_all add: label_defs)
  have 2: "toggleSign (initialState\<lparr>expression := str ''--5''\<rparr>)
           = initialState\<lparr>expression := str ''-5''\<rparr>"
    using 1 by (simp add: toggleSign_def Let_def startsWith_def str_def)
  have 3: "expression (toggleSign (initialState\<lparr>expression := str ''-5''\<rparr>)) = str ''5''"
    using 1 by (simp add: toggleSign_def Let_def startsWith_def str_def)
  show ?thesis
    unfolding 2 3 using 1(1) by (simp add: str_def)
qed

section \<open>Formatting\<close>

text \<open>
  A finite result below the threshold of line 161 is formatted as the number zero is.
  What the formatting of zero yields is a matter of the host.
\<close>

lemma classify_snaps_to_zero:
  "absBelow1e12 h v \<Longrightarrow> classify h (Num (Finite v)) = formatNumber h (zero h)"
  by (simp add: classify_def)

section \<open>The memory register\<close>

text \<open>
  After \<^verbatim>\<open>M+\<close> and \<^verbatim>\<open>M-\<close> on an unchanged expression the register holds
  \<^verbatim>\<open>(m + v) - v\<close> for one and the same operand \<open>v\<close>, the number read from the result of
  the expression, or of \<^verbatim>\<open>0\<close> for the empty expression.
\<close>

lemma memory_add_then_subtract:
  assumes "currentVal = calculate h (angleUnit s)
              (if expression s = [] then str ''0'' else expression s)"
    and "\<not> isErrorLabel currentVal" and "currentVal \<noteq> []"
  shows "memory (handleMemorySubtract h (handleMemoryAdd h s))
         = sub h (add h (memory s) (parseFloat h currentVal)) (parseFloat h currentVal)"
  using assms
  by (cases "expression s = []")
     (simp_all add: handleMemoryAdd_def handleMemorySubtract_def Let_def)

text \<open>
  In double-precision arithmetic the subtraction undoes the addition when the sum is
  exact, that is when the sum of two doubles is itself a double.
\<close>

lemma dSub_dAdd_exact:
  assumes "roundDouble m = Finite m" and "roundDouble (m + v) = Finite (m + v)"
  shows "dSub (dAdd (Finite m) (Finite v)) (Finite v) = Finite m"
  by (simp add: dSub_def assms)

text \<open>
  Claim C9, as the code has it. On a host that adds and subtracts in double precision,
  let the expression (or \<^verbatim>\<open>0\<close> for the empty expression) evaluate to a result from
  which the operand \<open>v\<close> is read, and let the register hold the double \<open>m\<close>. When the sum
  \<open>m + v\<close> is exact, \<^verbatim>\<open>M+\<close> followed by \<^verbatim>\<open>M-\<close> gives the state back, the register at
  \<open>m\<close>.
\<close>

theorem memory_round_trip:
  assumes "add h = dAdd" and "sub h = dSub"
    and "currentVal = calculate h (angleUnit s)
           (if expression s = [] then str ''0'' else expression s)"
    and "\<not> isErrorLabel currentVal" and "currentVal \<noteq> []"
    and "parseFloat h currentVal = Finite v"
    and "memory s = Finite m" and "roundDouble m = Finite m"
    and "roundDouble (m + v) = Finite (m + v)"
  shows "handleMemorySubtract h (handleMemoryAdd h s) = s"
proof -
  have a: "handleMemoryAdd h s = s\<lparr>memory := dAdd (Finite m) (Finite v)\<rparr>"
    using assms(1,3-7)
    by (cases "expression s = []") (simp_all add: handleMemoryAdd_def Let_def)
  have "handleMemorySubtract h (s\<lparr>memory := dAdd (Finite m) (Finite v)\<rparr>)
        = s\<lparr>memory := dSub (dAdd (Finite m) (Finite v)) (Finite v)\<rparr>"
    using assms(2-6)
    by (cases "expression s = []") (simp_all add: handleMemorySubtract_def Let_def)
  also have "\<dots> = s"
    using dSub_dAdd_exact [OF assms(8,9)] assms(7) by simp
  finally show ?thesis unfolding a .
qed

lemma double_examples:
  "roundDouble (1 / 2) = Finite (1 / 2)"
  "roundDouble (1 / 2 + 1 / 4) = Finite (1 / 2 + 1 / 4)"
  "roundDouble (1 / 10) = Finite (3602879701896397 / 36028797018963968)"
  "roundDouble (2 / 10) = Finite (3602879701896397 / 18014398509481984)"
  "roundDouble 9007199254740993 = Finite 9007199254740992"
  "roundDouble 9007199254740995 = Finite 9007199254740996"
  by code_simp+

lemma doubleHost_quarter:
  "calculate doubleHost deg (str ''0.25'') = str ''0.25''"
  "parseFloat doubleHost (str ''0.25'') = Finite (1 / 4)"
  by code_simp+

theorem memory_round_trip_witness:
  "roundDouble (1 / 2) = Finite (1 / 2)
   \<and> roundDouble (1 / 2 + 1 / 4) = Finite (1 / 2 + 1 / 4)
   \<and> parseFloat doubleHost (calculate doubleHost deg (str ''0.25'')) = Finite (1 / 4)
   \<and> handleMemorySubtract doubleHost (handleMemoryAdd doubleHost
        (doubleState\<lparr>expression := str ''0.25'', memory := Finite (1 / 2)\<rparr>))
       = doubleState\<lparr>expression := str ''0.25'', memory := Finite (1 / 2)\<rparr>"
proof -
  let ?s = "doubleState\<lparr>expression := str ''0.25'', memory := Finite (1 / 2)\<rparr>"
  have h: "add doubleHost = dAdd" "sub doubleHost = dSub"
    by (simp_all add: doubleHost_def)
  have e: "str ''0.25'' \<noteq> []" "\<not> isErrorLabel (str ''0.25'')"
    by (simp_all add: label_defs)
  have c: "str ''0.25'' = calculate doubleHost (angleUnit ?s)
             (if expression ?s = [] then str ''0'' else expression ?s)"
    using e(1) by (simp add: doubleState_def doubleHost_quarter(1))
  have m: "memory ?s = Finite (1 / 2)"
    by simp
  have p: "parseFloat doubleHost (calculate doubleHost deg (str ''0.25'')) = Finite (1 / 4)"
    by (simp only: doubleHost_quarter)
  from memory_round_trip [OF h c e(2) e(1) doubleHost_quarter(2) m double_examples(1,2)]
  have "handleMemorySubtract doubleHost (handleMemoryAdd doubleHost ?s) = ?s" .
  with double_examples(1,2) p show ?thesis by (intro conjI)
qed

text \<open>
  The claim as the specification states it, for every memory value and every expression,
  fails where the sum is rounded. With the double nearest to 0.1 in the register and the
  expression \<^verbatim>\<open>0.2\<close>, the sum is rounded up, and the subtraction leaves
  0.10000000000000003, two units in the last place above the value before.
\<close>

lemma doubleHost_fifth:
  "calculate doubleHost deg (str ''0.2'') = str ''0.2''"
  "memory (handleMemorySubtract doubleHost (handleMemoryAdd doubleHost
        (doubleState\<lparr>expression := str ''0.2'',
                      memory := Finite (3602879701896397 / 36028797018963968)\<rparr>)))
   = Finite (1801439850948199 / 18014398509481984)"
  by code_simp+

theorem memory_round_trip_counterexample:
  "roundDouble (1 / 10) = Finite (3602879701896397 / 36028797018963968)
   \<and> calculate doubleHost deg (str ''0.2'') = str ''0.2''
   \<and> memory (handleMemorySubtract doubleHost (handleMemoryAdd doubleHost
        (doubleState\<lparr>expression := str ''0.2'',
                      memory := Finite (3602879701896397 / 36028797018963968)\<rparr>)))
       = Finite (1801439850948199 / 18014398509481984)
   \<and> memory (handleMemorySubtract doubleHost (handleMemoryAdd doubleHost
        (doubleState\<lparr>expression := str ''0.2'',
                      memory := Finite (3602879701896397 / 36028797018963968)\<rparr>)))
       \<noteq> memory (doubleState\<lparr>expression := str ''0.2'',
                      memory := Finite (3602879701896397 / 36028797018963968)\<rparr>)"
  unfolding doubleHost_fifth using double_examples(3) by simp

end
